theory Spec2Isabelle
  imports Main "HOL-Library.Word" "HOL-Library.Sublist"
begin

section \<open>Keymap entries (keys.go)\<close>

text \<open>
  \<^verbatim>\<open>InputKeymapByIndex = 1 << iota\<close>, the only constant of its block, so \<open>iota\<close> is 0.
\<close>

definition InputKeymapByIndex :: int where
  "InputKeymapByIndex = 1 * 2 ^ 0"

text \<open>
  \<^verbatim>\<open>type KeymapEntry struct\<close>: the fields with the widths the source declares. The Go
  array \<^verbatim>\<open>[32]uint8\<close> is a list that holds 32 bytes in the zero value; the record type
  itself does not fix the length of the list.
\<close>

record KeymapEntry =
  Flags :: "8 word"
  Len :: "8 word"
  Index :: "16 word"
  Keycode :: "32 word"
  Scancode :: "8 word list"

text \<open>The zero value of the struct, what \<^verbatim>\<open>var entry KeymapEntry\<close> declares.\<close>

definition zero_KeymapEntry :: KeymapEntry where
  "zero_KeymapEntry =
     \<lparr>Flags = 0, Len = 0, Index = 0, Keycode = 0, Scancode = replicate 32 0\<rparr>"

subsection \<open>The declared layout of the struct\<close>

text \<open>
  The field types that the declaration of \<^verbatim>\<open>KeymapEntry\<close> uses, with the sizes and
  alignments Go gives them, and the placement of the fields of a struct: in the order of
  the declaration, each at the next offset that is a multiple of its alignment; the size
  of the struct is the end of the last field rounded up to the largest alignment.
\<close>

datatype go_type = Uint8 | Uint16 | Uint32 | ArrayOf nat go_type

fun sizeof :: "go_type \<Rightarrow> nat" where
  "sizeof Uint8 = 1"
| "sizeof Uint16 = 2"
| "sizeof Uint32 = 4"
| "sizeof (ArrayOf n t) = n * sizeof t"

fun alignof :: "go_type \<Rightarrow> nat" where
  "alignof Uint8 = 1"
| "alignof Uint16 = 2"
| "alignof Uint32 = 4"
| "alignof (ArrayOf n t) = alignof t"

definition align_up :: "nat \<Rightarrow> nat \<Rightarrow> nat" where
  "align_up off a = ((off + a - 1) div a) * a"

fun field_offsets :: "nat \<Rightarrow> (string \<times> go_type) list \<Rightarrow> (string \<times> nat \<times> nat) list" where
  "field_offsets off [] = []"
| "field_offsets off ((name, t) # fs) =
     (let start = align_up off (alignof t)
      in (name, start, sizeof t) # field_offsets (start + sizeof t) fs)"

fun fields_end :: "nat \<Rightarrow> (string \<times> go_type) list \<Rightarrow> nat" where
  "fields_end off [] = off"
| "fields_end off ((name, t) # fs) = fields_end (align_up off (alignof t) + sizeof t) fs"

definition struct_align :: "(string \<times> go_type) list \<Rightarrow> nat" where
  "struct_align fs = fold max (map (\<lambda>(name, t). alignof t) fs) 1"

definition struct_size :: "(string \<times> go_type) list \<Rightarrow> nat" where
  "struct_size fs = align_up (fields_end 0 fs) (struct_align fs)"

definition KeymapEntry_fields :: "(string \<times> go_type) list" where
  "KeymapEntry_fields =
     [(''Flags'', Uint8), (''Len'', Uint8), (''Index'', Uint16), (''Keycode'', Uint32),
      (''Scancode'', ArrayOf 32 Uint8)]"

section \<open>Key and button codes (keys.go)\<close>

text \<open>
  The two constant blocks of the source, one definition for each constant, in the order
  and with the right-hand sides of the source. The constants are untyped integer
  constants of Go, so they are integers here.
\<close>

subsection \<open>Key codes\<close>

definition KeyEscape :: int where "KeyEscape = 1"
definition KeyMax :: int where "KeyMax = 0x2ff"

subsection \<open>Button codes for mice and other devices\<close>




section \<open>The kernel, the descriptor and the bit set\<close>

text \<open>
  The device's descriptor is a \<^verbatim>\<open>uintptr\<close>. A control operation is named by its request;
  the numeric request codes (\<^verbatim>\<open>_EVIOCGKEY\<close>, \<^verbatim>\<open>_EVIOCGKEYCODE\<close>, \<^verbatim>\<open>_EVIOCSKEYCODE\<close>) are
  not declared in keys.go, so a request is the name with its argument.
\<close>

type_synonym uintptr = "64 word"

datatype errno = Errno nat

datatype request = EVIOCGKEY nat | EVIOCGKEYCODE | EVIOCSKEYCODE | EVIOCGBIT nat nat

text \<open>
  The kernel is a parameter of every operation: what it answers to a control operation on
  a buffer of bytes and on a keymap entry. \<open>Inl e\<close> is a failed call, which leaves the
  caller's buffer as it was; \<open>Inr b\<close> is a successful call that wrote \<open>b\<close>.
\<close>

record kernel =
  sys_bytes :: "uintptr \<Rightarrow> request \<Rightarrow> 8 word list \<Rightarrow> errno + 8 word list"
  sys_entry :: "uintptr \<Rightarrow> request \<Rightarrow> KeymapEntry \<Rightarrow> errno + KeymapEntry"

text \<open>
  The kernel writes into the caller's buffer and cannot change its length: the bytes it
  wrote replace the front of the buffer, cut at the length of the buffer.
\<close>

definition write_buf :: "8 word list \<Rightarrow> 8 word list \<Rightarrow> 8 word list" where
  "write_buf buf ws = take (length buf) ws @ drop (length ws) buf"

text \<open>
  Modelled from the spec: the helper \<^verbatim>\<open>ioctl(fd, request, pointer) error\<close> is called by
  keys.go and is not under src/. The spec: "ioctl: a device-specific control-operation
  syscall used here for capability queries and keymap get/set"; a failure is an "ioctl
  error". The helper hands the descriptor, the request and the buffer behind the pointer
  to the kernel and returns the error of the call (\<open>None\<close> is Go's \<^verbatim>\<open>nil\<close>); the memory
  behind the pointer is what the kernel left there, and the model returns both. This is
  the helper on a buffer of bytes.
\<close>

definition ioctl_bytes ::
  "kernel \<Rightarrow> uintptr \<Rightarrow> request \<Rightarrow> 8 word list \<Rightarrow> errno option \<times> 8 word list" where
  "ioctl_bytes K fd req buf =
     (case sys_bytes K fd req buf of
        Inl e \<Rightarrow> (Some e, buf)
      | Inr ws \<Rightarrow> (None, write_buf buf ws))"

text \<open>
  Modelled from the spec: the same helper \<^verbatim>\<open>ioctl\<close>, which is not under src/, on a pointer
  to a keymap entry. The spec: the keymap record is "passed by reference to a get/set
  control operation"; on a failure the "ioctl error" is what the helper returns, and the
  entry behind the pointer is as the caller left it.
\<close>

definition ioctl_entry ::
  "kernel \<Rightarrow> uintptr \<Rightarrow> request \<Rightarrow> KeymapEntry \<Rightarrow> errno option \<times> KeymapEntry" where
  "ioctl_entry K fd req entry =
     (case sys_entry K fd req entry of
        Inl e \<Rightarrow> (Some e, entry)
      | Inr entry' \<Rightarrow> (None, entry'))"

text \<open>
  Modelled from the spec: the device handle, its descriptor and \<^verbatim>\<open>Close\<close> are declared in a
  file of the repository that is not under src/. The spec: the handle "owns exactly one
  open file descriptor"; \<^verbatim>\<open>Close()\<close> "releases the file descriptor". The descriptor is
  either open, with its number, or released; \<^verbatim>\<open>d.fd.Fd()\<close> of a released descriptor is the
  invalid descriptor, all bits set.
\<close>

datatype File = OpenFile nat | ClosedFile

record Device =
  fd :: File

fun Fd :: "File \<Rightarrow> uintptr" where
  "Fd (OpenFile n) = word_of_nat n"
| "Fd ClosedFile = - 1"

text \<open>
  Modelled from the spec: \<^verbatim>\<open>Close\<close> is not under src/. The spec: "releases the file
  descriptor and stops both pumps"; only the descriptor matters to the query methods.
\<close>

definition Close :: "Device \<Rightarrow> Device" where
  "Close d = d\<lparr>fd := ClosedFile\<rparr>"

text \<open>
  Modelled from the spec: the type \<^verbatim>\<open>Bitset\<close> and \<^verbatim>\<open>NewBitset\<close>, \<^verbatim>\<open>Len\<close>, \<^verbatim>\<open>Bytes\<close>, \<^verbatim>\<open>Test\<close> are
  declared in a file of the repository that is not under src/. The spec: a Bitset is
  "logically indexed by a bit position from 0 to a declared maximum";
  \<^verbatim>\<open>New(maxBits)\<close> gives a "Bitset sized to hold maxBits indices (rounded up to the
  underlying word width)"; \<^verbatim>\<open>Len()\<close> is the "declared bit capacity"; \<^verbatim>\<open>Bytes()\<close> "exposes the
  underlying storage as a raw byte sequence", "sized to exactly cover maxBits bits",
  "least-significant-bit-first within each byte, bytes in ascending address order";
  \<^verbatim>\<open>Test(i)\<close> is false for an unset bit, and an index out of range is rejected; a fresh
  Bitset has every bit unset.
\<close>

record Bitset =
  nbits :: int
  bits :: "8 word list"

definition NewBitset :: "int \<Rightarrow> Bitset" where
  "NewBitset maxBits = \<lparr>nbits = maxBits, bits = replicate (nat ((maxBits + 7) div 8)) 0\<rparr>"


definition Bitset_Bytes :: "Bitset \<Rightarrow> 8 word list" where
  "Bitset_Bytes bs = bits bs"

definition Bitset_Test :: "Bitset \<Rightarrow> int \<Rightarrow> bool" where
  "Bitset_Test bs i =
     (0 \<le> i \<and> i < nbits bs \<and> nat (i div 8) < length (bits bs) \<and>
      bit (bits bs ! nat (i div 8)) (nat (i mod 8)))"

section \<open>The query and keymap operations (keys.go)\<close>

text \<open>A run-time panic of Go is a value: indexing an empty slice.\<close>

datatype panic = IndexOutOfRange

text \<open>
  \<^verbatim>\<open>func (d *Device) KeyState() Bitset\<close>. The slice \<^verbatim>\<open>buf\<close> is the storage of \<^verbatim>\<open>bs\<close>, so what
  the kernel writes into \<^verbatim>\<open>buf\<close> is in the Bitset that is returned; \<^verbatim>\<open>&buf[0]\<close> panics on an
  empty slice; the error of \<^verbatim>\<open>ioctl\<close> is dropped.
\<close>

definition KeyState :: "kernel \<Rightarrow> Device \<Rightarrow> panic + Bitset" where
  "KeyState K d =
     (let bs = NewBitset KeyMax;
          buf = Bitset_Bytes bs
      in if buf = [] then Inl IndexOutOfRange
         else (let (err, buf') = ioctl_bytes K (Fd (fd d)) (EVIOCGKEY (length buf)) buf
               in Inr (bs\<lparr>bits := buf'\<rparr>)))"

text \<open>
  \<^verbatim>\<open>func (d *Device) KeyMap(keycode int) KeymapEntry\<close>. \<^verbatim>\<open>uint32(keycode)\<close> keeps the low 32
  bits of the integer; the error of \<^verbatim>\<open>ioctl\<close> is dropped.
\<close>

definition KeyMap :: "kernel \<Rightarrow> Device \<Rightarrow> int \<Rightarrow> KeymapEntry" where
  "KeyMap K d keycode =
     (let entry = zero_KeymapEntry;
          entry = entry\<lparr>Keycode := word_of_int keycode\<rparr>;
          (err, entry) = ioctl_entry K (Fd (fd d)) EVIOCGKEYCODE entry
      in entry)"

text \<open>
  \<^verbatim>\<open>func (d *Device) SetKeyMap(entry KeymapEntry) bool\<close>: the entry is the caller's, passed by
  value; the result is \<^verbatim>\<open>ioctl(...) == nil\<close>.
\<close>

definition SetKeyMap :: "kernel \<Rightarrow> Device \<Rightarrow> KeymapEntry \<Rightarrow> bool" where
  "SetKeyMap K d entry = (fst (ioctl_entry K (Fd (fd d)) EVIOCSKEYCODE entry) = None)"

text \<open>
  Modelled from the spec: \<^verbatim>\<open>EventTypes\<close> is not under src/. The spec: "Bitset over the space
  of event-type codes, populated by querying the device's global capability mask"; "if
  the underlying capability query fails", "return a zero-valued/empty Bitset". The size of
  the space of event-type codes is a constant that keys.go does not declare: it is the
  parameter \<open>evMax\<close>.
\<close>

definition EventTypes :: "int \<Rightarrow> kernel \<Rightarrow> Device \<Rightarrow> Bitset" where
  "EventTypes evMax K d =
     (let bs = NewBitset evMax;
          buf = Bitset_Bytes bs;
          (err, buf') = ioctl_bytes K (Fd (fd d)) (EVIOCGBIT 0 (length buf)) buf
      in bs\<lparr>bits := buf'\<rparr>)"

section \<open>The inbound event pump\<close>

text \<open>
  Modelled from the spec: the event type, the device's inbound channel and the inbound
  pump are declared in a file of the repository that is not under src/. The spec: an
  Event is "event type", "code", "value", "and timestamp"; on the wire a "timestamp (two
  integer fields: seconds, microseconds), 16-bit type, 16-bit code, 32-bit signed value",
  "read/written verbatim against the open descriptor".
\<close>

record Event =
  Time_sec :: "64 word"
  Time_usec :: "64 word"
  Type :: "16 word"
  Code :: "16 word"
  Value :: "32 word"

text \<open>
  Modelled from the spec: what one blocking read of the pump gives. The spec: "a blocking
  fixed-size read of one raw event record"; "decode failures (short read, malformed
  record)"; "a read error because the descriptor was closed".
\<close>

datatype read_result = Full Event | ShortRead | ReadError errno

text \<open>
  Modelled from the spec: the events that a sequence of reads delivers. Every complete
  record is an event, up to the first read that fails or is short, where the pump stops.
\<close>

fun decoded :: "read_result list \<Rightarrow> Event list" where
  "decoded [] = []"
| "decoded (Full e # rs) = e # decoded rs"
| "decoded (ShortRead # rs) = []"
| "decoded (ReadError err # rs) = []"

text \<open>
  Modelled from the spec: the phases of a transport direction, "idle (not yet started),
  running (actively pumping), stopped (permanently halted, resources released)".
\<close>

datatype phase = Idle | Running | Stopped

text \<open>
  Modelled from the spec: the inbound direction of the transport. \<open>source\<close> is what the
  kernel hands to the successive reads of the descriptor, in the order the kernel
  produced it; \<open>inbox\<close> is the content of the inbound channel, oldest first; \<open>received\<close>
  is what the application has taken from the channel, in the order it took it.
\<close>

record transport =
  source :: "read_result list"
  inbox :: "Event list"
  received :: "Event list"
  inbound :: phase

text \<open>
  Modelled from the spec: the pump and the application run concurrently, so a run of the
  system is a schedule of their actions, in any order. \<open>Pump\<close> is one turn of the pump's
  loop: it "performs a blocking fixed-size read of one raw event record", "decodes it into
  an Event, and delivers it onto the inbound channel"; on a failed read or decode "the
  pump stops and the channel is closed". \<open>Receive\<close> is the application taking the oldest
  event of the channel; on an empty channel it waits, and nothing changes. \<open>CloseDevice\<close>
  is closing the device, which "must terminate both transport directions".
\<close>

datatype action = Pump | Receive | CloseDevice

fun exec :: "action \<Rightarrow> transport \<Rightarrow> transport" where
  "exec Pump s =
     (if inbound s \<noteq> Running then s
      else (case source s of
              [] \<Rightarrow> s
            | Full e # rs \<Rightarrow> s\<lparr>source := rs, inbox := inbox s @ [e]\<rparr>
            | ShortRead # rs \<Rightarrow> s\<lparr>source := rs, inbound := Stopped\<rparr>
            | ReadError err # rs \<Rightarrow> s\<lparr>source := rs, inbound := Stopped\<rparr>))"
| "exec Receive s =
     (case inbox s of
        [] \<Rightarrow> s
      | e # es \<Rightarrow> s\<lparr>inbox := es, received := received s @ [e]\<rparr>)"
| "exec CloseDevice s = s\<lparr>inbound := Stopped\<rparr>"

fun run :: "action list \<Rightarrow> transport \<Rightarrow> transport" where
  "run [] s = s"
| "run (a # as) s = run as (exec a s)"

text \<open>
  Modelled from the spec: the state after \<^verbatim>\<open>Open\<close>, which "starts both transport pumps":
  nothing read yet, an empty channel, the inbound direction running.
\<close>

definition opened :: "read_result list \<Rightarrow> transport" where
  "opened rs = \<lparr>source = rs, inbox = [], received = [], inbound = Running\<rparr>"

text \<open>
  The invariant of the inbound direction for the sequence \<open>es\<close> of events that the kernel
  produces: what has reached the channel so far, taken or not, is a front part of \<open>es\<close>,
  and while the pump runs, the rest of \<open>es\<close> is what the reads still have to give.
\<close>

definition pump_inv :: "Event list \<Rightarrow> transport \<Rightarrow> bool" where
  "pump_inv es s \<longleftrightarrow>
     prefix (received s @ inbox s) es \<and>
     (inbound s = Running \<longrightarrow> received s @ inbox s @ decoded (source s) = es)"

section \<open>A kernel and a device to evaluate the operations on\<close>

text \<open>
  A small kernel with one device, on descriptor 3. Any other descriptor is a bad
  descriptor (error 9). Of the device the Escape key, code 1, is held down. The keymap
  query answers with a scancode of four bytes, the low byte of the keycode first; the
  keymap update refuses an entry whose length exceeds the scancode buffer (error 22) and
  accepts any other. Any other request is refused (error 25).
\<close>

definition demo_kernel :: kernel where
  "demo_kernel =
     \<lparr>sys_bytes = (\<lambda>fd req buf.
        if fd \<noteq> 3 then Inl (Errno 9)
        else (case req of
                EVIOCGKEY n \<Rightarrow> Inr [2]
              | EVIOCGKEYCODE \<Rightarrow> Inl (Errno 25)
              | EVIOCSKEYCODE \<Rightarrow> Inl (Errno 25)
              | EVIOCGBIT t n \<Rightarrow> Inr [2])),
      sys_entry = (\<lambda>fd req entry.
        if fd \<noteq> 3 then Inl (Errno 9)
        else (case req of
                EVIOCGKEY n \<Rightarrow> Inl (Errno 25)
              | EVIOCGKEYCODE \<Rightarrow>
                  Inr (entry\<lparr>Len := 4, Scancode := ucast (Keycode entry) # replicate 31 0\<rparr>)
              | EVIOCSKEYCODE \<Rightarrow>
                  if unat (Len entry) > 32 then Inl (Errno 22) else Inr entry
              | EVIOCGBIT t n \<Rightarrow> Inl (Errno 25)))\<rparr>"

definition dev3 :: Device where
  "dev3 = \<lparr>fd = OpenFile 3\<rparr>"

text \<open>A handle on descriptor 7, which is not a device of \<open>demo_kernel\<close>.\<close>

definition dev7 :: Device where
  "dev7 = \<lparr>fd = OpenFile 7\<rparr>"

text \<open>Two key events: the key A, code 30, goes down and comes up.\<close>

definition press_A :: Event where
  "press_A = \<lparr>Time_sec = 0, Time_usec = 0, Type = 1, Code = 30, Value = 1\<rparr>"

definition release_A :: Event where
  "release_A = \<lparr>Time_sec = 0, Time_usec = 0, Type = 1, Code = 30, Value = 0\<rparr>"



section \<open>The code tables\<close>





section \<open>The operations, unfolded\<close>

lemma KeyMap_unfold:
  "KeyMap K d keycode =
     (case sys_entry K (Fd (fd d)) EVIOCGKEYCODE (zero_KeymapEntry\<lparr>Keycode := word_of_int keycode\<rparr>) of
        Inl e \<Rightarrow> zero_KeymapEntry\<lparr>Keycode := word_of_int keycode\<rparr>
      | Inr r \<Rightarrow> r)"
  by (simp add: KeyMap_def ioctl_entry_def split: sum.splits)

lemma SetKeyMap_unfold:
  "SetKeyMap K d entry =
     (case sys_entry K (Fd (fd d)) EVIOCSKEYCODE entry of Inl e \<Rightarrow> False | Inr r \<Rightarrow> True)"
  by (simp add: SetKeyMap_def ioctl_entry_def split: sum.splits)

lemma NewBitset_KeyMax: "NewBitset KeyMax = \<lparr>nbits = 767, bits = replicate 96 0\<rparr>"
  by (simp add: NewBitset_def KeyMax_def)



lemma KeyState_unfold:
  "KeyState K d =
     Inr \<lparr>nbits = KeyMax,
          bits = snd (ioctl_bytes K (Fd (fd d)) (EVIOCGKEY 96) (replicate 96 0))\<rparr>"
  by (simp add: KeyState_def NewBitset_def KeyMax_def Bitset_Bytes_def Let_def split: prod.splits)

lemma fresh_Bitset_unset: "\<not> Bitset_Test (NewBitset n) i"
  by (simp add: Bitset_Test_def NewBitset_def)

lemma demo_get_dev3:
  "sys_entry demo_kernel (Fd (fd dev3)) EVIOCGKEYCODE (zero_KeymapEntry\<lparr>Keycode := word_of_int 30\<rparr>)
     = Inr \<lparr>Flags = 0, Len = 4, Index = 0, Keycode = 30, Scancode = 30 # replicate 31 0\<rparr>"
  by (simp add: demo_kernel_def dev3_def zero_KeymapEntry_def)

lemma demo_get_dev7:
  "sys_entry demo_kernel (Fd (fd dev7)) EVIOCGKEYCODE entry = Inl (Errno 9)"
  by (simp add: demo_kernel_def dev7_def)

lemma ioctl_bytes_failed:
  "sys_bytes K f req buf = Inl e \<Longrightarrow> ioctl_bytes K f req buf = (Some e, buf)"
  by (simp add: ioctl_bytes_def)

lemma Fd_Close: "Fd (fd (Close d)) = - 1"
  by (simp add: Close_def)

section \<open>The named codes\<close>




section \<open>The layout of a keymap entry\<close>

text \<open>
  C5: the fields of \<open>KeymapEntry\<close>, as declared, are a flags field of 1 byte at offset 0,
  a length field of 1 byte at offset 1, an index of 2 bytes at offset 2, a keycode of 4
  bytes at offset 4 and a scancode buffer of 32 bytes at offset 8, in this order and with
  no padding between them or after them: 40 bytes in total.
\<close>

theorem KeymapEntry_layout:
  "field_offsets 0 KeymapEntry_fields =
     [(''Flags'', 0, 1), (''Len'', 1, 1), (''Index'', 2, 2), (''Keycode'', 4, 4),
      (''Scancode'', 8, 32)]
   \<and> struct_size KeymapEntry_fields = 40
   \<and> sum_list (map (\<lambda>(name, t). sizeof t) KeymapEntry_fields) = 40"
  by (simp add: KeymapEntry_fields_def struct_size_def struct_align_def align_up_def)

section \<open>The keymap query\<close>

text \<open>
  C1, as the code has it: \<open>KeyMap\<close> returns the entry that the kernel wrote when the
  keymap query succeeds; when the query fails it returns the entry it had prepared, which
  is zero in every field but \<open>Keycode\<close>, and \<open>Keycode\<close> holds the low 32 bits of the
  keycode that was asked for.
\<close>

theorem KeyMap_result:
  "(sys_entry K (Fd (fd d)) EVIOCGKEYCODE (zero_KeymapEntry\<lparr>Keycode := word_of_int keycode\<rparr>) = Inr r
      \<longrightarrow> KeyMap K d keycode = r)
   \<and> (sys_entry K (Fd (fd d)) EVIOCGKEYCODE (zero_KeymapEntry\<lparr>Keycode := word_of_int keycode\<rparr>) = Inl e
      \<longrightarrow> KeyMap K d keycode = zero_KeymapEntry\<lparr>Keycode := word_of_int keycode\<rparr>)"
  by (simp add: KeyMap_unfold)

theorem KeyMap_result_witness:
  "KeyMap demo_kernel dev3 30
     = \<lparr>Flags = 0, Len = 4, Index = 0, Keycode = 30, Scancode = 30 # replicate 31 0\<rparr>
   \<and> KeyMap demo_kernel dev7 30
     = \<lparr>Flags = 0, Len = 0, Index = 0, Keycode = 30, Scancode = replicate 32 0\<rparr>"
  using KeyMap_result [of demo_kernel dev3 30 "\<lparr>Flags = 0, Len = 4, Index = 0, Keycode = 30, Scancode = 30 # replicate 31 0\<rparr>" "Errno 9"]
    KeyMap_result [of demo_kernel dev7 30 zero_KeymapEntry "Errno 9"]
    demo_get_dev3 demo_get_dev7
  by (simp add: zero_KeymapEntry_def)

text \<open>
  The claim C1 as stated fails: on descriptor 7 the query fails with error 9, and the
  entry that \<open>KeyMap\<close> returns for keycode 30 has the keycode 30, so it is not the zero
  entry.
\<close>

theorem KeyMap_failure_not_zero:
  "fst (ioctl_entry demo_kernel (Fd (fd dev7)) EVIOCGKEYCODE (zero_KeymapEntry\<lparr>Keycode := word_of_int 30\<rparr>))
     = Some (Errno 9)
   \<and> Keycode (KeyMap demo_kernel dev7 30) = 30
   \<and> KeyMap demo_kernel dev7 30 \<noteq> zero_KeymapEntry"
  by (simp add: KeyMap_unfold ioctl_entry_def demo_get_dev7 zero_KeymapEntry_def)

text \<open>
  C7: for every integer keycode \<open>KeyMap\<close> hands the kernel, in the keymap query on the
  device's descriptor, an entry that is zero in every field but \<open>Keycode\<close>, with no check
  of the range; the 32-bit \<open>Keycode\<close> of that entry is the keycode modulo \<open>2 ^ 32\<close>. The
  kernel decides: what \<open>KeyMap\<close> returns is the kernel's answer to that entry when the
  kernel accepts it, and the entry itself when the kernel refuses it.
\<close>

theorem KeyMap_passes_keycode_through:
  "\<exists>entry. uint (Keycode entry) = keycode mod 2 ^ 32
      \<and> Flags entry = 0 \<and> Len entry = 0 \<and> Index entry = 0 \<and> Scancode entry = replicate 32 0
      \<and> (\<forall>K d. KeyMap K d keycode =
            (case sys_entry K (Fd (fd d)) EVIOCGKEYCODE entry of
               Inl err \<Rightarrow> entry
             | Inr answer \<Rightarrow> answer))"
proof -
  let ?entry = "zero_KeymapEntry\<lparr>Keycode := word_of_int keycode\<rparr>"
  have "uint (Keycode ?entry) = keycode mod 2 ^ 32"
    by (simp add: uint_word_of_int take_bit_eq_mod)
  moreover have "Flags ?entry = 0" "Len ?entry = 0" "Index ?entry = 0"
    "Scancode ?entry = replicate 32 0"
    by (simp_all add: zero_KeymapEntry_def)
  moreover have "\<forall>K d. KeyMap K d keycode =
      (case sys_entry K (Fd (fd d)) EVIOCGKEYCODE ?entry of Inl err \<Rightarrow> ?entry | Inr answer \<Rightarrow> answer)"
    by (simp add: KeyMap_unfold)
  ultimately show ?thesis by blast
qed

theorem KeyMap_passes_keycode_through_witness:
  "KeyMap demo_kernel dev3 (2 ^ 32 + 30)
     = \<lparr>Flags = 0, Len = 4, Index = 0, Keycode = 30, Scancode = 30 # replicate 31 0\<rparr>
   \<and> KeyMap demo_kernel dev7 (- 1)
     = \<lparr>Flags = 0, Len = 0, Index = 0, Keycode = 2 ^ 32 - 1, Scancode = replicate 32 0\<rparr>"
proof -
  from KeyMap_passes_keycode_through [of "2 ^ 32 + 30"] obtain entry where
    e: "uint (Keycode entry) = (2 ^ 32 + 30) mod 2 ^ 32" "Flags entry = 0" "Len entry = 0"
      "Index entry = 0" "Scancode entry = replicate 32 0"
    and k: "KeyMap demo_kernel dev3 (2 ^ 32 + 30) =
      (case sys_entry demo_kernel (Fd (fd dev3)) EVIOCGKEYCODE entry of
         Inl err \<Rightarrow> entry | Inr answer \<Rightarrow> answer)"
    by blast
  from e(1) have "uint (Keycode entry) = uint (30 :: 32 word)"
    by simp
  then have "Keycode entry = 30"
    by (simp only: word_uint_eq_iff)
  with e have "entry = \<lparr>Flags = 0, Len = 0, Index = 0, Keycode = 30, Scancode = replicate 32 0\<rparr>"
    by (cases entry) simp
  with k have a: "KeyMap demo_kernel dev3 (2 ^ 32 + 30)
     = \<lparr>Flags = 0, Len = 4, Index = 0, Keycode = 30, Scancode = 30 # replicate 31 0\<rparr>"
    by (simp add: demo_kernel_def dev3_def)
  from KeyMap_passes_keycode_through [of "- 1"] obtain entry' where
    e': "uint (Keycode entry') = (- 1) mod 2 ^ 32" "Flags entry' = 0" "Len entry' = 0"
      "Index entry' = 0" "Scancode entry' = replicate 32 0"
    and k': "KeyMap demo_kernel dev7 (- 1) =
      (case sys_entry demo_kernel (Fd (fd dev7)) EVIOCGKEYCODE entry' of
         Inl err \<Rightarrow> entry' | Inr answer \<Rightarrow> answer)"
    by blast
  from e'(1) have "uint (Keycode entry') = uint (2 ^ 32 - 1 :: 32 word)"
    by simp
  then have "Keycode entry' = 2 ^ 32 - 1"
    by (simp only: word_uint_eq_iff)
  with e' have "entry' = \<lparr>Flags = 0, Len = 0, Index = 0, Keycode = 2 ^ 32 - 1, Scancode = replicate 32 0\<rparr>"
    by (cases entry') simp
  with k' have b: "KeyMap demo_kernel dev7 (- 1)
     = \<lparr>Flags = 0, Len = 0, Index = 0, Keycode = 2 ^ 32 - 1, Scancode = replicate 32 0\<rparr>"
    by (simp add: demo_get_dev7)
  from a b show ?thesis
    by (rule conjI)
qed

section \<open>The keymap update\<close>

text \<open>
  C3: \<open>SetKeyMap\<close> is true exactly when the kernel accepts the set-keycode operation on
  the caller's entry, and false exactly when the kernel fails it; it is a total function
  to \<open>bool\<close>, so it raises nothing.
\<close>

theorem SetKeyMap_iff_ioctl_succeeds:
  "(SetKeyMap K d entry \<longleftrightarrow> (\<exists>r. sys_entry K (Fd (fd d)) EVIOCSKEYCODE entry = Inr r))
   \<and> (\<not> SetKeyMap K d entry \<longleftrightarrow> (\<exists>e. sys_entry K (Fd (fd d)) EVIOCSKEYCODE entry = Inl e))
   \<and> (SetKeyMap K d entry \<longleftrightarrow> fst (ioctl_entry K (Fd (fd d)) EVIOCSKEYCODE entry) = None)"
  by (auto simp: SetKeyMap_def ioctl_entry_def split: sum.splits)

theorem SetKeyMap_iff_ioctl_succeeds_witness:
  "SetKeyMap demo_kernel dev3 (zero_KeymapEntry\<lparr>Len := 4, Keycode := 30\<rparr>)
   \<and> \<not> SetKeyMap demo_kernel dev7 (zero_KeymapEntry\<lparr>Len := 4, Keycode := 30\<rparr>)"
proof -
  let ?entry = "zero_KeymapEntry\<lparr>Len := 4, Keycode := 30\<rparr>"
  have a: "sys_entry demo_kernel (Fd (fd dev3)) EVIOCSKEYCODE ?entry = Inr ?entry"
    by (simp add: demo_kernel_def dev3_def)
  have b: "sys_entry demo_kernel (Fd (fd dev7)) EVIOCSKEYCODE ?entry = Inl (Errno 9)"
    by (simp add: demo_kernel_def dev7_def)
  from SetKeyMap_iff_ioctl_succeeds [of demo_kernel dev3 ?entry]
    SetKeyMap_iff_ioctl_succeeds [of demo_kernel dev7 ?entry] a b
  show ?thesis by simp
qed



section \<open>The key state\<close>




text \<open>
  C4: when the kernel fails the key-state query on the device's descriptor, \<open>KeyState\<close>
  returns the fresh Bitset, in which every bit is unset, and no error.
\<close>

theorem KeyState_failure_empty:
  assumes "\<forall>n buf. \<exists>e. sys_bytes K (Fd (fd d)) (EVIOCGKEY n) buf = Inl e"
  shows "KeyState K d = Inr (NewBitset KeyMax) \<and> (\<forall>i. \<not> Bitset_Test (NewBitset KeyMax) i)"
proof -
  from assms obtain e where "sys_bytes K (Fd (fd d)) (EVIOCGKEY 96) (replicate 96 0) = Inl e"
    by blast
  then have "snd (ioctl_bytes K (Fd (fd d)) (EVIOCGKEY 96) (replicate 96 0)) = replicate 96 0"
    by (simp add: ioctl_bytes_def)
  then have "KeyState K d = Inr (NewBitset KeyMax)"
    by (simp add: KeyState_unfold NewBitset_def KeyMax_def)
  with fresh_Bitset_unset show ?thesis
    by blast
qed

theorem KeyState_failure_empty_witness:
  "KeyState demo_kernel dev7 = Inr \<lparr>nbits = 767, bits = replicate 96 0\<rparr>
   \<and> \<not> Bitset_Test \<lparr>nbits = 767, bits = replicate 96 0\<rparr> KeyEscape"
proof -
  have "\<forall>n buf. \<exists>e. sys_bytes demo_kernel (Fd (fd dev7)) (EVIOCGKEY n) buf = Inl e"
    by (simp add: demo_kernel_def dev7_def)
  from KeyState_failure_empty [OF this] show ?thesis
    by (simp add: NewBitset_KeyMax)
qed

section \<open>The query methods after Close\<close>

text \<open>
  C8, as the code has it: on a handle that \<open>Close\<close> has released, with a kernel that fails
  every control operation on the invalid descriptor, \<open>EventTypes\<close> and \<open>KeyState\<close> return
  the fresh Bitset, every bit unset, \<open>SetKeyMap\<close> returns false, and \<open>KeyMap\<close> returns an
  entry that is zero in every field but \<open>Keycode\<close>, which holds the low 32 bits of the
  keycode that was asked for; \<open>KeyState\<close> does not panic, and the other three are total.
\<close>

theorem queries_after_Close:
  assumes bytes: "\<forall>req buf. \<exists>e. sys_bytes K (- 1) req buf = Inl e"
    and entries: "\<forall>req entry. \<exists>e. sys_entry K (- 1) req entry = Inl e"
  shows "EventTypes evMax K (Close d) = NewBitset evMax
         \<and> KeyState K (Close d) = Inr (NewBitset KeyMax)
         \<and> (\<forall>i. \<not> Bitset_Test (NewBitset evMax) i \<and> \<not> Bitset_Test (NewBitset KeyMax) i)
         \<and> KeyMap K (Close d) keycode = zero_KeymapEntry\<lparr>Keycode := word_of_int keycode\<rparr>
         \<and> \<not> SetKeyMap K (Close d) entry"
proof -
  let ?buf = "bits (NewBitset evMax)"
  from bytes obtain e1 where "sys_bytes K (- 1) (EVIOCGBIT 0 (length ?buf)) ?buf = Inl e1"
    by blast
  then have ev: "EventTypes evMax K (Close d) = NewBitset evMax"
    by (simp add: EventTypes_def Fd_Close Bitset_Bytes_def ioctl_bytes_failed)
  from bytes have "\<forall>n buf. \<exists>e. sys_bytes K (Fd (fd (Close d))) (EVIOCGKEY n) buf = Inl e"
    by (simp add: Fd_Close)
  then have "snd (ioctl_bytes K (Fd (fd (Close d))) (EVIOCGKEY 96) (replicate 96 0)) = replicate 96 0"
    by (metis ioctl_bytes_failed snd_conv)
  then have ks: "KeyState K (Close d) = Inr (NewBitset KeyMax)"
    by (simp add: KeyState_unfold NewBitset_def KeyMax_def)
  from entries obtain e2 where
    "sys_entry K (- 1) EVIOCGKEYCODE (zero_KeymapEntry\<lparr>Keycode := word_of_int keycode\<rparr>) = Inl e2"
    by blast
  then have km: "KeyMap K (Close d) keycode = zero_KeymapEntry\<lparr>Keycode := word_of_int keycode\<rparr>"
    by (simp add: KeyMap_unfold Fd_Close)
  from entries obtain e3 where "sys_entry K (- 1) EVIOCSKEYCODE entry = Inl e3"
    by blast
  then have sk: "\<not> SetKeyMap K (Close d) entry"
    by (simp add: SetKeyMap_unfold Fd_Close)
  from ev ks km sk fresh_Bitset_unset show ?thesis
    by blast
qed

theorem queries_after_Close_witness:
  "EventTypes 31 demo_kernel (Close dev3) = \<lparr>nbits = 31, bits = replicate 4 0\<rparr>
   \<and> KeyState demo_kernel (Close dev3) = Inr \<lparr>nbits = 767, bits = replicate 96 0\<rparr>
   \<and> \<not> Bitset_Test \<lparr>nbits = 767, bits = replicate 96 0\<rparr> KeyEscape
   \<and> KeyMap demo_kernel (Close dev3) 30
        = \<lparr>Flags = 0, Len = 0, Index = 0, Keycode = 30, Scancode = replicate 32 0\<rparr>
   \<and> \<not> SetKeyMap demo_kernel (Close dev3) (zero_KeymapEntry\<lparr>Len := 4, Keycode := 30\<rparr>)"
proof -
  have b: "\<forall>req buf. \<exists>e. sys_bytes demo_kernel (- 1) req buf = Inl e"
    by (simp add: demo_kernel_def)
  have e: "\<forall>req entry. \<exists>e. sys_entry demo_kernel (- 1) req entry = Inl e"
    by (simp add: demo_kernel_def)
  from queries_after_Close [OF b e, of 31 dev3 30 "zero_KeymapEntry\<lparr>Len := 4, Keycode := 30\<rparr>"]
  show ?thesis
    by (simp add: NewBitset_def KeyMax_def zero_KeymapEntry_def)
qed

text \<open>
  The claim C8 as stated fails for \<open>KeyMap\<close>: after \<open>Close\<close> the query fails with error 9,
  and the entry returned for keycode 30 has the keycode 30: it is not the zero entry that
  is documented for a failure.
\<close>

theorem KeyMap_after_Close_not_zero:
  "fst (ioctl_entry demo_kernel (Fd (fd (Close dev3))) EVIOCGKEYCODE
          (zero_KeymapEntry\<lparr>Keycode := word_of_int 30\<rparr>)) = Some (Errno 9)
   \<and> Keycode (KeyMap demo_kernel (Close dev3) 30) = 30
   \<and> KeyMap demo_kernel (Close dev3) 30 \<noteq> zero_KeymapEntry"
  by (simp add: KeyMap_unfold ioctl_entry_def Fd_Close demo_kernel_def zero_KeymapEntry_def)

section \<open>The order of the inbound events\<close>

lemma decoded_Full: "decoded (map Full es) = es"
  by (induction es) simp_all

lemma exec_inv: "pump_inv es s \<Longrightarrow> pump_inv es (exec a s)"
proof (cases a)
  case Pump
  assume i: "pump_inv es s"
  show ?thesis
  proof (cases "inbound s = Running")
    case False
    with i Pump show ?thesis by simp
  next
    case True
    with i have eq: "received s @ inbox s @ decoded (source s) = es"
      by (simp add: pump_inv_def)
    show ?thesis
    proof (cases "source s")
      case Nil
      with i Pump True show ?thesis by simp
    next
      case (Cons r rs)
      with i Pump True eq show ?thesis
        by (cases r) (auto simp: pump_inv_def prefix_def)
    qed
  qed
next
  case Receive
  assume "pump_inv es s"
  with Receive show ?thesis
    by (cases "inbox s") (auto simp: pump_inv_def)
next
  case CloseDevice
  assume "pump_inv es s"
  with CloseDevice show ?thesis
    by (simp add: pump_inv_def)
qed

lemma run_inv: "pump_inv es s \<Longrightarrow> pump_inv es (run sch s)"
  by (induction sch arbitrary: s) (simp_all add: exec_inv)

lemma opened_inv: "pump_inv (decoded rs) (opened rs)"
  by (simp add: pump_inv_def opened_def)

lemma run_append: "run (as @ bs) s = run bs (run as s)"
  by (induction as arbitrary: s) simp_all

lemma pump_all:
  "inbound s = Running \<Longrightarrow> source s = map Full es \<Longrightarrow>
   run (replicate (length es) Pump) s = s\<lparr>source := [], inbox := inbox s @ es\<rparr>"
proof (induction es arbitrary: s)
  case Nil
  then show ?case by simp
next
  case (Cons e es)
  then show ?case by simp
qed

lemma receive_all:
  "inbox s = es \<Longrightarrow>
   run (replicate (length es) Receive) s = s\<lparr>inbox := [], received := received s @ es\<rparr>"
proof (induction es arbitrary: s)
  case Nil
  then show ?case by simp
next
  case (Cons e es)
  then show ?case by simp
qed

text \<open>
  C9: whatever the schedule of the pump, the application and the closing of the device,
  the events that have reached the inbound channel, those the application has taken
  followed by those still in the channel, are a front part of the events that the kernel
  produced, in the kernel's order: none is reordered, none is dropped before a later one
  is delivered. When the kernel produces \<open>N\<close> complete records and the pump and the
  application each take \<open>N\<close> turns, the application has received exactly the \<open>N\<close> events,
  in the same order.
\<close>

theorem inbound_order:
  "prefix (received (run sch (opened rs)) @ inbox (run sch (opened rs))) (decoded rs)
   \<and> decoded (map Full es) = es
   \<and> received (run (replicate (length es) Pump @ replicate (length es) Receive)
                 (opened (map Full es))) = es"
proof -
  have "pump_inv (decoded rs) (run sch (opened rs))"
    by (rule run_inv [OF opened_inv])
  then have "prefix (received (run sch (opened rs)) @ inbox (run sch (opened rs))) (decoded rs)"
    by (simp add: pump_inv_def)
  moreover have "received (run (replicate (length es) Pump @ replicate (length es) Receive)
                 (opened (map Full es))) = es"
    by (simp add: run_append pump_all receive_all opened_def)
  ultimately show ?thesis
    by (simp add: decoded_Full)
qed

theorem inbound_order_witness:
  "received (run [Pump, Pump, Receive] (opened [Full press_A, Full release_A])) = [press_A]
   \<and> inbox (run [Pump, Pump, Receive] (opened [Full press_A, Full release_A])) = [release_A]
   \<and> prefix [press_A, release_A] (decoded [Full press_A, Full release_A])
   \<and> received (run [Pump, Pump, Receive, Receive] (opened [Full press_A, Full release_A]))
       = [press_A, release_A]"
proof -
  let ?s = "run [Pump, Pump, Receive] (opened [Full press_A, Full release_A])"
  have a: "received ?s = [press_A]"
    by (simp add: opened_def)
  have b: "inbox ?s = [release_A]"
    by (simp add: opened_def)
  from inbound_order [of "[Pump, Pump, Receive]" "[Full press_A, Full release_A]"]
  have "prefix (received ?s @ inbox ?s) (decoded [Full press_A, Full release_A])"
    by (rule conjunct1)
  then have c: "prefix [press_A, release_A] (decoded [Full press_A, Full release_A])"
    unfolding a b by simp
  have d: "received (run [Pump, Pump, Receive, Receive] (opened [Full press_A, Full release_A]))
       = [press_A, release_A]"
    by (simp add: opened_def)
  show ?thesis
    by (intro conjI a b c d)
qed

end
